theory Spec2Isabelle
  imports Complex_Main
begin

section \<open>Financial formulas (model.py)\<close>

text \<open>
  Python floats are modelled as exact reals: every statement below is about the
  arithmetic the formulas denote, without rounding, infinities or NaN.  Exceptions are
  values of type \<open>error\<close>; a function that can raise returns \<open>error + 'a\<close>.
\<close>

datatype error = ValueError string | ZeroDivisionError

definition net_operating_income :: "real \<Rightarrow> real \<Rightarrow> real" where
  "net_operating_income revenue operating_cost_ratio = revenue * (1 - operating_cost_ratio)"

definition interest_cost :: "real \<Rightarrow> real \<Rightarrow> real" where
  "interest_cost interest_rate debt_balance = interest_rate * debt_balance"

definition net_cashflow :: "real \<Rightarrow> real \<Rightarrow> real \<Rightarrow> real \<Rightarrow> real" where
  "net_cashflow revenue operating_cost_ratio interest_rate debt_balance =
     (let operating_costs = revenue * operating_cost_ratio
      in revenue - operating_costs - interest_cost interest_rate debt_balance)"

definition dscr :: "real \<Rightarrow> real \<Rightarrow> real \<Rightarrow> real \<Rightarrow> error + real" where
  "dscr revenue operating_cost_ratio interest_rate debt_balance =
     (let interest = interest_cost interest_rate debt_balance
      in if interest \<le> 0 then Inl (ValueError ''Interest cost must be positive for DSCR.'')
         else Inr ((revenue * (1 - operating_cost_ratio)) / interest))"


definition theta_from_yield_ltv :: "real \<Rightarrow> real \<Rightarrow> error + real" where
  "theta_from_yield_ltv gross_yield ltv =
     (if ltv \<le> 0 then Inl (ValueError ''ltv must be > 0'')
      else Inr (gross_yield / ltv))"

section \<open>Stress grid generation\<close>

text \<open>
  The tolerances \<open>1e-12\<close> and \<open>1e-8\<close> of the source are the rationals
  \<open>1 / 10 ^ 12\<close> and \<open>1 / 10 ^ 8\<close>.  \<open>np.arange(n)\<close> is empty for
  \<open>n \<le> 0\<close>, as \<open>[0..<nat n]\<close> is.
\<close>

text \<open>\<open>np.round(x, decimals)\<close>: scale, round half to even, scale back.\<close>

definition rint :: "real \<Rightarrow> int" where
  "rint x = (let f = \<lfloor>x\<rfloor>; r = x - of_int f
             in if r < 1 / 2 then f else if r > 1 / 2 then f + 1
                else if even f then f else f + 1)"

definition np_round :: "real \<Rightarrow> nat \<Rightarrow> real" where
  "np_round x decimals = of_int (rint (x * 10 ^ decimals)) / 10 ^ decimals"

text \<open>\<open>np.clip(v, lo, hi)\<close> is \<open>minimum(maximum(v, lo), hi)\<close>.\<close>

definition np_clip :: "real \<Rightarrow> real \<Rightarrow> real \<Rightarrow> real" where
  "np_clip v lo hi = min (max v lo) hi"

text \<open>\<open>np.unique\<close>: the distinct values in ascending order.\<close>

definition np_unique :: "real list \<Rightarrow> real list" where
  "np_unique vals = sort (remdups vals)"

text \<open>\<open>_inclusive_arange\<close> of model.py.\<close>

definition inclusive_arange :: "real \<Rightarrow> real \<Rightarrow> real \<Rightarrow> nat \<Rightarrow> error + real list" where
  "inclusive_arange start stop step decimals =
     (if step \<le> 0 then Inl (ValueError ''step must be > 0'')
      else
        let n = \<lfloor>(stop - start) / step + 1 / 10 ^ 12\<rfloor> + 1;
            vals = map (\<lambda>i. start + step * real i) [0..<nat n];
            vals = filter (\<lambda>v. v \<le> stop + 1 / 10 ^ 12) vals;
            vals = map (\<lambda>v. np_round v decimals) vals;
            vals = (if vals = [] then [np_round start decimals] else vals);
            vals = (if \<bar>last vals - stop\<bar> > 1 / 10 ^ 8 \<and> stop \<ge> last vals + 1 / 10 ^ 8
                    then vals @ [np_round stop decimals] else vals)
        in Inr (np_unique vals))"

text \<open>
  \<open>_frange\<close> of simulate.py, the generator \<open>run_stress_test\<close> uses.  Its
  arguments are Python floats, so the division raises \<open>ZeroDivisionError\<close> when
  \<open>step\<close> is zero; there is no other check.
\<close>

definition frange :: "real \<Rightarrow> real \<Rightarrow> real \<Rightarrow> error + real list" where
  "frange start stop step =
     (if step = 0 then Inl ZeroDivisionError
      else
        let n = \<lfloor>(stop - start) / step + 1 / 10 ^ 12\<rfloor> + 1;
            vals = map (\<lambda>i. start + step * real i) [0..<nat n];
            vals = map (\<lambda>v. np_clip v (min start stop) (max start stop)) vals
        in Inr vals)"

section \<open>Configuration (the materialised assumptions file)\<close>

text \<open>
  The nested dictionary read from the assumptions file, with the keys simulate.py reads.
  The keys \<open>start\<close>, \<open>stop\<close>, \<open>step\<close> of an occupancy range carry the prefix
  \<open>range_\<close>.  A preset body is a dictionary: its numeric entries are the map
  \<open>scalars\<close>, its one structured entry is \<open>occupancy_range_override\<close>.  The presets
  are an association list in file order (the order \<open>presets.keys()\<close> lists them), read
  with \<open>map_of\<close>.
\<close>

record base_cashflow_cfg =
  gross_annual_rent :: real
  operating_cost_ratio :: real

record interest_rate_stress_cfg =
  start_bp :: real
  stop_bp :: real
  step_bp :: real

record occupancy_range_cfg =
  range_start :: real
  range_stop :: real
  range_step :: real

record revenue_stress_cfg =
  occupancy_range :: occupancy_range_cfg

record preset_cfg =
  scalars :: "string \<rightharpoonup> real"
  occupancy_range_override :: "occupancy_range_cfg option"

record calibration_cfg =
  default_preset :: "string option"
  presets :: "(string \<times> preset_cfg) list"

record assumptions =
  base_cashflow :: base_cashflow_cfg
  interest_rate_stress :: interest_rate_stress_cfg
  revenue_stress :: revenue_stress_cfg
  calibration :: calibration_cfg

section \<open>Grid and calibration resolution (simulate.py)\<close>

definition get_rate_shocks_bp :: "assumptions \<Rightarrow> error + real list" where
  "get_rate_shocks_bp a =
     (let cfg = interest_rate_stress a
      in frange (start_bp cfg) (stop_bp cfg) (step_bp cfg))"

definition get_occupancy_grid :: "assumptions \<Rightarrow> preset_cfg option \<Rightarrow> error + real list" where
  "get_occupancy_grid a preset =
     (let occ_cfg = occupancy_range (revenue_stress a);
          occ_cfg = (case preset of
                       None \<Rightarrow> occ_cfg
                     | Some p \<Rightarrow> (case occupancy_range_override p of
                                    None \<Rightarrow> occ_cfg
                                  | Some ov \<Rightarrow> ov))
      in frange (range_start occ_cfg) (range_stop occ_cfg) (range_step occ_cfg))"

text \<open>
  The text of the two messages of \<open>select_calibration\<close>.  \<open>str_of_name\<close> is how the
  f-string prints the name (\<open>None\<close> when there is none); \<open>py_repr_list\<close> is the
  \<open>repr\<close> of a list of keys that need no escaping.
\<close>

definition quoted :: "string \<Rightarrow> string" where
  "quoted s = [CHR 0x27] @ s @ [CHR 0x27]"

fun join_comma :: "string list \<Rightarrow> string" where
  "join_comma [] = []"
| "join_comma [s] = s"
| "join_comma (s # t # ss) = s @ '', '' @ join_comma (t # ss)"

definition py_repr_list :: "string list \<Rightarrow> string" where
  "py_repr_list ks = ''['' @ join_comma (map quoted ks) @ '']''"

definition str_of_name :: "string option \<Rightarrow> string" where
  "str_of_name name = (case name of None \<Rightarrow> ''None'' | Some k \<Rightarrow> k)"

definition unknown_preset_msg :: "string option \<Rightarrow> string list \<Rightarrow> string" where
  "unknown_preset_msg name ks =
     ''Unknown preset '' @ quoted (str_of_name name) @ ''. Available: '' @ py_repr_list ks"

definition missing_encoding_msg :: "string \<Rightarrow> string" where
  "missing_encoding_msg name =
     ''Preset '' @ quoted name
       @ '' must define rent_to_debt_ratio OR (gross_yield and ltv) OR (annual_rent_gbp and mortgage_balance_gbp).''"

text \<open>
  Python's float division, which raises on a zero divisor.
\<close>

definition py_div :: "real \<Rightarrow> real \<Rightarrow> error + real" where
  "py_div x y = (if y = 0 then Inl ZeroDivisionError else Inr (x / y))"

text \<open>The \<open>if\<close>/\<open>elif\<close> chain of \<open>select_calibration\<close> that derives theta.\<close>

definition preset_theta :: "string \<Rightarrow> preset_cfg \<Rightarrow> error + real" where
  "preset_theta name cfg =
     (if scalars cfg ''rent_to_debt_ratio'' \<noteq> None
        then Inr (the (scalars cfg ''rent_to_debt_ratio''))
      else if scalars cfg ''gross_yield'' \<noteq> None \<and> scalars cfg ''ltv'' \<noteq> None
        then py_div (the (scalars cfg ''gross_yield'')) (the (scalars cfg ''ltv''))
      else if scalars cfg ''annual_rent_gbp'' \<noteq> None
              \<and> scalars cfg ''mortgage_balance_gbp'' \<noteq> None
        then py_div (the (scalars cfg ''annual_rent_gbp''))
                    (the (scalars cfg ''mortgage_balance_gbp''))
      else Inl (ValueError (missing_encoding_msg name)))"

text \<open>
  \<open>name not in presets\<close> holds when there is no name at all (no argument and no
  default) and when the name is not a key.
\<close>

definition select_calibration ::
  "assumptions \<Rightarrow> string option \<Rightarrow> error + (real \<times> string \<times> preset_cfg)" where
  "select_calibration a preset_name =
     (let calib = calibration a;
          ps = presets calib;
          name = (if preset_name \<noteq> None then preset_name else default_preset calib)
      in case name of
           None \<Rightarrow> Inl (ValueError (unknown_preset_msg name (map fst ps)))
         | Some k \<Rightarrow>
             (case map_of ps k of
                None \<Rightarrow> Inl (ValueError (unknown_preset_msg name (map fst ps)))
              | Some cfg \<Rightarrow>
                  (case preset_theta k cfg of
                     Inl e \<Rightarrow> Inl e
                   | Inr theta \<Rightarrow> Inr (theta, k, cfg))))"

section \<open>The stress sweep (simulate.py)\<close>

text \<open>
  A row of the result table.  The columns \<open>net_cashflow\<close> and \<open>dscr\<close> carry the
  prefix \<open>row_\<close>, the functions of model.py having those names.
\<close>

record stress_row =
  interest_rate :: real
  rate_shock_bp :: real
  occupancy_multiplier :: real
  row_net_cashflow :: real
  row_dscr :: real

text \<open>The body of the inner loop: one grid cell, one row, or the error \<open>dscr\<close> raises.\<close>

definition stress_cell :: "real \<Rightarrow> real \<Rightarrow> real \<Rightarrow> real \<Rightarrow> real \<Rightarrow> real \<Rightarrow> error + stress_row" where
  "stress_cell rent opex_ratio base_rate debt occ shock =
     (let r = base_rate + shock / 10000;
          revenue = rent * occ;
          cf = net_cashflow revenue opex_ratio r debt
      in case dscr revenue opex_ratio r debt of
           Inl e \<Rightarrow> Inl e
         | Inr d \<Rightarrow> Inr \<lparr>interest_rate = r, rate_shock_bp = shock, occupancy_multiplier = occ,
                         row_net_cashflow = cf, row_dscr = d\<rparr>)"

text \<open>The two loops, appending to \<open>rows\<close>; the first error ends the run.\<close>

fun sweep_shocks ::
  "real \<Rightarrow> real \<Rightarrow> real \<Rightarrow> real \<Rightarrow> real \<Rightarrow> real list \<Rightarrow> stress_row list \<Rightarrow> error + stress_row list" where
  "sweep_shocks rent opex_ratio base_rate debt occ [] rows = Inr rows"
| "sweep_shocks rent opex_ratio base_rate debt occ (shock # shocks_bp) rows =
     (case stress_cell rent opex_ratio base_rate debt occ shock of
        Inl e \<Rightarrow> Inl e
      | Inr row \<Rightarrow> sweep_shocks rent opex_ratio base_rate debt occ shocks_bp (rows @ [row]))"

fun sweep_occupancy ::
  "real \<Rightarrow> real \<Rightarrow> real \<Rightarrow> real \<Rightarrow> real list \<Rightarrow> real list \<Rightarrow> stress_row list \<Rightarrow> error + stress_row list" where
  "sweep_occupancy rent opex_ratio base_rate debt shocks_bp [] rows = Inr rows"
| "sweep_occupancy rent opex_ratio base_rate debt shocks_bp (occ # occ_grid) rows =
     (case sweep_shocks rent opex_ratio base_rate debt occ shocks_bp rows of
        Inl e \<Rightarrow> Inl e
      | Inr rows' \<Rightarrow> sweep_occupancy rent opex_ratio base_rate debt shocks_bp occ_grid rows')"

definition run_stress_test ::
  "assumptions \<Rightarrow> real \<Rightarrow> real \<Rightarrow> preset_cfg option \<Rightarrow> error + stress_row list" where
  "run_stress_test a base_rate theta preset =
     (let rent = gross_annual_rent (base_cashflow a);
          opex_ratio = operating_cost_ratio (base_cashflow a)
      in case py_div rent theta of
           Inl e \<Rightarrow> Inl e
         | Inr debt \<Rightarrow>
             (case get_rate_shocks_bp a of
                Inl e \<Rightarrow> Inl e
              | Inr shocks_bp \<Rightarrow>
                  (case get_occupancy_grid a preset of
                     Inl e \<Rightarrow> Inl e
                   | Inr occ_grid \<Rightarrow>
                       sweep_occupancy rent opex_ratio base_rate debt shocks_bp occ_grid [])))"

text \<open>
  For stating what a run returns: the row of a cell whose DSCR is defined, and the
  primary key of a row.
\<close>

definition cell_row :: "real \<Rightarrow> real \<Rightarrow> real \<Rightarrow> real \<Rightarrow> real \<Rightarrow> real \<Rightarrow> stress_row" where
  "cell_row rent opex_ratio base_rate debt occ shock =
     \<lparr>interest_rate = base_rate + shock / 10000,
      rate_shock_bp = shock,
      occupancy_multiplier = occ,
      row_net_cashflow = net_cashflow (rent * occ) opex_ratio (base_rate + shock / 10000) debt,
      row_dscr = rent * occ * (1 - opex_ratio) / ((base_rate + shock / 10000) * debt)\<rparr>"

definition row_key :: "stress_row \<Rightarrow> real \<times> real" where
  "row_key row = (rate_shock_bp row, occupancy_multiplier row)"

definition dscr_error :: error where
  "dscr_error = ValueError ''Interest cost must be positive for DSCR.''"

section \<open>Example configurations\<close>

text \<open>
  A configuration with the base cashflow of the end-to-end scenario (rent 120000, operating
  cost ratio 0.35), an occupancy range 0.5, 0.75, 1 and a rate-shock range left open, and
  presets that carry one, two or three of the theta encodings.
\<close>

definition example_presets :: "(string \<times> preset_cfg) list" where
  "example_presets =
     [(''all_three'', \<lparr>scalars = map_of [(''rent_to_debt_ratio'', 8/100), (''gross_yield'', 6/100),
           (''ltv'', 6/10), (''annual_rent_gbp'', 12000), (''mortgage_balance_gbp'', 100000)],
         occupancy_range_override = None\<rparr>),
      (''yield_and_balance'', \<lparr>scalars = map_of [(''gross_yield'', 6/100),
           (''ltv'', 6/10), (''annual_rent_gbp'', 12000), (''mortgage_balance_gbp'', 100000)],
         occupancy_range_override = None\<rparr>),
      (''balance_only'', \<lparr>scalars = map_of [(''gross_yield'', 6/100),
           (''annual_rent_gbp'', 12000), (''mortgage_balance_gbp'', 100000)],
         occupancy_range_override = None\<rparr>),
      (''nothing'', \<lparr>scalars = map_of [(''ltv'', 6/10)], occupancy_range_override = None\<rparr>),
      (''negative_ltv'', \<lparr>scalars = map_of [(''gross_yield'', 6/100), (''ltv'', -6/10)],
         occupancy_range_override = None\<rparr>)]"

definition example_assumptions :: "real \<Rightarrow> real \<Rightarrow> real \<Rightarrow> assumptions" where
  "example_assumptions lo hi st =
     \<lparr>base_cashflow = \<lparr>gross_annual_rent = 120000, operating_cost_ratio = 35/100\<rparr>,
      interest_rate_stress = \<lparr>start_bp = lo, stop_bp = hi, step_bp = st\<rparr>,
      revenue_stress = \<lparr>occupancy_range = \<lparr>range_start = 1/2, range_stop = 1, range_step = 1/4\<rparr>\<rparr>,
      calibration = \<lparr>default_preset = Some ''all_three'', presets = example_presets\<rparr>\<rparr>"

section \<open>Properties of the formulas\<close>

text \<open>
  C1.  \<open>dscr\<close> raises its invalid-input error exactly when the interest cost
  \<open>rate * debt\<close> is zero or negative; when it is positive the result is
  \<open>revenue * (1 - opex_ratio) / (rate * debt)\<close>, the quotient itself.
\<close>

theorem dscr_fails_iff_nonpositive_interest:
  "(dscr revenue opex_ratio rate debt
      = Inl (ValueError ''Interest cost must be positive for DSCR.'') \<longleftrightarrow> rate * debt \<le> 0)
   \<and> ((\<exists>e. dscr revenue opex_ratio rate debt = Inl e) \<longleftrightarrow> rate * debt \<le> 0)
   \<and> (rate * debt > 0 \<longrightarrow>
        dscr revenue opex_ratio rate debt = Inr (revenue * (1 - opex_ratio) / (rate * debt)))"
  by (simp add: dscr_def interest_cost_def Let_def)

theorem dscr_fails_iff_nonpositive_interest_witness:
  "(5/100) * (1200000::real) > 0
   \<and> dscr 120000 (35/100) (5/100) 1200000 = Inr (120000 * (1 - 35/100) / ((5/100) * 1200000))
   \<and> dscr 120000 (35/100) (-1/100) 1200000
       = Inl (ValueError ''Interest cost must be positive for DSCR.'')"
  using dscr_fails_iff_nonpositive_interest [of 120000 "35/100" "5/100" 1200000]
        dscr_fails_iff_nonpositive_interest [of 120000 "35/100" "-1/100" 1200000]
  by simp





section \<open>The grid of \<open>_frange\<close> has no repeated value\<close>








section \<open>What a run of the sweep returns\<close>

text \<open>
  A cell fails exactly when its interest cost is not positive, and that does not depend
  on the occupancy: the loops return every row, in order, or the error of \<open>dscr\<close>.
\<close>

lemma stress_cell_eq:
  "stress_cell rent opex_ratio base_rate debt occ shock =
     (if 0 < (base_rate + shock / 10000) * debt
      then Inr (cell_row rent opex_ratio base_rate debt occ shock) else Inl dscr_error)"
  by (simp add: stress_cell_def dscr_def interest_cost_def cell_row_def dscr_error_def Let_def)

lemma sweep_shocks_eq:
  "sweep_shocks rent opex_ratio base_rate debt occ shocks rows =
     (if \<forall>shock\<in>set shocks. 0 < (base_rate + shock / 10000) * debt
      then Inr (rows @ map (cell_row rent opex_ratio base_rate debt occ) shocks)
      else Inl dscr_error)"
  by (induction shocks arbitrary: rows) (simp_all add: stress_cell_eq)

lemma sweep_occupancy_eq:
  "sweep_occupancy rent opex_ratio base_rate debt shocks occs rows =
     (if occs = [] \<or> (\<forall>shock\<in>set shocks. 0 < (base_rate + shock / 10000) * debt)
      then Inr (rows @ concat (map (\<lambda>occ. map (cell_row rent opex_ratio base_rate debt occ) shocks) occs))
      else Inl dscr_error)"
  by (induction occs arbitrary: rows) (simp_all add: sweep_shocks_eq)

lemma run_stress_test_eq:
  assumes "theta \<noteq> 0" and "get_rate_shocks_bp a = Inr shocks"
    and "get_occupancy_grid a preset = Inr occs"
  shows "run_stress_test a base_rate theta preset =
     (if occs = [] \<or> (\<forall>shock\<in>set shocks.
            0 < (base_rate + shock / 10000) * (gross_annual_rent (base_cashflow a) / theta))
      then Inr (concat (map (\<lambda>occ. map (cell_row (gross_annual_rent (base_cashflow a))
              (operating_cost_ratio (base_cashflow a)) base_rate
              (gross_annual_rent (base_cashflow a) / theta) occ) shocks) occs))
      else Inl dscr_error)"
  using assms by (simp add: run_stress_test_def py_div_def sweep_occupancy_eq Let_def)


lemma row_key_cell_row [simp]:
  "row_key (cell_row rent opex_ratio base_rate debt occ shock) = (shock, occ)"
  by (simp add: row_key_def cell_row_def)


text \<open>The example configuration, evaluated.\<close>

lemma example_shocks: "get_rate_shocks_bp (example_assumptions 0 100 50) = Inr [0, 50, 100]"
  by code_simp

lemma example_occs: "get_occupancy_grid (example_assumptions lo hi st) None = Inr [1 / 2, 3 / 4, 1]"
  unfolding get_occupancy_grid_def example_assumptions_def by code_simp

lemma example_negative_shocks:
  "get_rate_shocks_bp (example_assumptions (-600) 0 300) = Inr [-600, -300, 0]"
  by code_simp


section \<open>Properties of the sweep\<close>

text \<open>
  C4.  With rent 120000, operating cost ratio 0.35, base rate 0.05 and theta 0.1 the debt
  is 1200000.  When the grids hold the shock 0 and the occupancy 1 and every swept rate is
  positive, the run returns a table; it has a row for shock 0 and occupancy 1, and every
  such row has revenue 120000, rate 0.05, net cashflow 120000 - 42000 - 60000 = 18000 and
  DSCR (120000 * 0.65) / 60000 = 1.3.
\<close>

theorem run_stress_test_base_scenario:
  assumes rent: "gross_annual_rent (base_cashflow a) = 120000"
    and opex: "operating_cost_ratio (base_cashflow a) = 35 / 100"
    and s: "get_rate_shocks_bp a = Inr shocks"
    and oc: "get_occupancy_grid a preset = Inr occs"
    and s0: "0 \<in> set shocks" and o1: "1 \<in> set occs"
    and pos: "\<forall>shock\<in>set shocks. 0 < 5 / 100 + shock / 10000"
  shows "py_div (gross_annual_rent (base_cashflow a)) (1 / 10) = Inr 1200000
     \<and> (\<exists>rows. run_stress_test a (5 / 100) (1 / 10) preset = Inr rows
          \<and> (\<exists>row\<in>set rows. rate_shock_bp row = 0 \<and> occupancy_multiplier row = 1)
          \<and> (\<forall>row\<in>set rows. rate_shock_bp row = 0 \<and> occupancy_multiplier row = 1 \<longrightarrow>
                gross_annual_rent (base_cashflow a) * occupancy_multiplier row = 120000
              \<and> interest_rate row = 5 / 100
              \<and> row_net_cashflow row = 120000 - 42000 - 60000
              \<and> row_net_cashflow row = 18000
              \<and> row_dscr row = (120000 * (65 / 100)) / 60000
              \<and> row_dscr row = 13 / 10))"
proof -
  let ?cell = "cell_row 120000 (35 / 100) (5 / 100) 1200000"
  let ?rows = "concat (map (\<lambda>occ. map (?cell occ) shocks) occs)"
  have debt: "py_div (gross_annual_rent (base_cashflow a)) (1 / 10) = Inr 1200000"
    by (simp add: py_div_def rent)
  have t: "(1 / 10 :: real) \<noteq> 0" by simp
  have d: "(120000 :: real) / (1 / 10) = 1200000" by simp
  have "\<forall>shock\<in>set shocks. 0 < (5 / 100 + shock / 10000) * (1200000 :: real)"
  proof
    fix shock assume "shock \<in> set shocks"
    with pos have "0 < 5 / 100 + shock / 10000" by blast
    then show "0 < (5 / 100 + shock / 10000) * (1200000 :: real)"
      by (rule mult_pos_pos) simp
  qed
  then have cond: "occs = [] \<or> (\<forall>shock\<in>set shocks. 0 < (5 / 100 + shock / 10000) * (1200000 :: real))"
    by (rule disjI2)
  have run: "run_stress_test a (5 / 100) (1 / 10) preset = Inr ?rows"
    unfolding run_stress_test_eq [OF t s oc] rent opex d by (simp only: cond if_True)
  have "?cell 1 0 \<in> set ?rows" using s0 o1 by auto
  then have ex: "\<exists>row\<in>set ?rows. rate_shock_bp row = 0 \<and> occupancy_multiplier row = 1"
    by (rule rev_bexI) (simp add: cell_row_def)
  have all: "\<forall>row\<in>set ?rows. rate_shock_bp row = 0 \<and> occupancy_multiplier row = 1 \<longrightarrow>
                gross_annual_rent (base_cashflow a) * occupancy_multiplier row = 120000
              \<and> interest_rate row = 5 / 100
              \<and> row_net_cashflow row = 120000 - 42000 - 60000
              \<and> row_net_cashflow row = 18000
              \<and> row_dscr row = (120000 * (65 / 100)) / 60000
              \<and> row_dscr row = 13 / 10"
  proof (intro ballI impI)
    fix row assume "row \<in> set ?rows" and k: "rate_shock_bp row = 0 \<and> occupancy_multiplier row = 1"
    then obtain occ shock where "row = ?cell occ shock" by auto
    with k have "row = ?cell 1 0" by (simp add: cell_row_def)
    then show "gross_annual_rent (base_cashflow a) * occupancy_multiplier row = 120000
              \<and> interest_rate row = 5 / 100
              \<and> row_net_cashflow row = 120000 - 42000 - 60000
              \<and> row_net_cashflow row = 18000
              \<and> row_dscr row = (120000 * (65 / 100)) / 60000
              \<and> row_dscr row = 13 / 10"
      by (simp add: cell_row_def rent net_cashflow_def interest_cost_def)
  qed
  from debt run ex all show ?thesis by blast
qed

theorem run_stress_test_base_scenario_witness:
  "py_div (gross_annual_rent (base_cashflow (example_assumptions 0 100 50))) (1 / 10) = Inr 1200000
     \<and> (\<exists>rows. run_stress_test (example_assumptions 0 100 50) (5 / 100) (1 / 10) None = Inr rows
          \<and> (\<exists>row\<in>set rows. rate_shock_bp row = 0 \<and> occupancy_multiplier row = 1
                \<and> row_net_cashflow row = 18000 \<and> row_dscr row = 13 / 10))"
proof -
  have "gross_annual_rent (base_cashflow (example_assumptions 0 100 50)) = 120000"
    and "operating_cost_ratio (base_cashflow (example_assumptions 0 100 50)) = 35 / 100"
    by (simp_all add: example_assumptions_def)
  moreover have "(0::real) \<in> set [0, 50, 100]" and "(1::real) \<in> set [1 / 2, 3 / 4, 1]"
    and "\<forall>shock\<in>set [0, 50, 100 :: real]. 0 < 5 / 100 + shock / 10000"
    by simp_all
  ultimately show ?thesis
    using run_stress_test_base_scenario [OF _ _ example_shocks example_occs]
    by blast
qed



text \<open>
  C6.  When the debt is positive and some cell of the resolved grids has an effective
  rate \<open>base_rate + shock / 10000\<close> that is zero or negative, the whole run is the
  invalid-input error of \<open>dscr\<close>: no table, partial or otherwise, is returned.
\<close>

theorem run_stress_test_fails_on_nonpositive_rate:
  assumes s: "get_rate_shocks_bp a = Inr shocks"
    and oc: "get_occupancy_grid a preset = Inr occs"
    and cell: "occ \<in> set occs" "shock \<in> set shocks"
    and rate: "base_rate + shock / 10000 \<le> 0"
    and debt: "py_div (gross_annual_rent (base_cashflow a)) theta = Inr debt" "0 < debt"
  shows "run_stress_test a base_rate theta preset
           = Inl (ValueError ''Interest cost must be positive for DSCR.'')"
proof -
  from debt have t: "theta \<noteq> 0" and d: "debt = gross_annual_rent (base_cashflow a) / theta"
    by (auto simp: py_div_def split: if_splits)
  from rate debt(2) have "(base_rate + shock / 10000) * debt \<le> 0"
    by (simp add: mult_nonpos_nonneg)
  with cell(2) have "\<not> (\<forall>shock\<in>set shocks. 0 < (base_rate + shock / 10000) * debt)"
    by (auto simp: not_less)
  moreover from cell(1) have "occs \<noteq> []" by auto
  ultimately show ?thesis
    unfolding run_stress_test_eq [OF t s oc] d dscr_error_def by simp
qed

theorem run_stress_test_fails_on_nonpositive_rate_witness:
  "(5 / 100 :: real) + (-600) / 10000 \<le> 0
   \<and> run_stress_test (example_assumptions (-600) 0 300) (5 / 100) (1 / 10) None
       = Inl (ValueError ''Interest cost must be positive for DSCR.'')"
proof -
  have r: "(5 / 100 :: real) + (-600) / 10000 \<le> 0" by simp
  have d: "py_div (gross_annual_rent (base_cashflow (example_assumptions (-600) 0 300))) (1 / 10)
             = Inr 1200000" "(0::real) < 1200000"
    by (simp_all add: py_div_def example_assumptions_def)
  have "(1::real) \<in> set [1 / 2, 3 / 4, 1]" and "(-600::real) \<in> set [-600, -300, 0]" by simp_all
  from run_stress_test_fails_on_nonpositive_rate
         [OF example_negative_shocks example_occs this r d] r
  show ?thesis by simp
qed

section \<open>Calibration resolution\<close>

lemma select_calibration_resolved:
  assumes "(if preset_name \<noteq> None then preset_name else default_preset (calibration a)) = Some name"
    and "map_of (presets (calibration a)) name = Some cfg"
  shows "select_calibration a preset_name =
           (case preset_theta name cfg of Inl e \<Rightarrow> Inl e | Inr theta \<Rightarrow> Inr (theta, name, cfg))"
  using assms by (cases preset_name) (simp_all add: select_calibration_def Let_def)


text \<open>
  C7.  Once the preset name resolves to a preset body, theta is taken from the first
  encoding present, in the order direct ratio, yield and LTV, rent and balance: a direct
  \<open>rent_to_debt_ratio\<close> wins whatever else is there; without it, a
  \<open>gross_yield\<close> and \<open>ltv\<close> pair gives \<open>gross_yield / ltv\<close> whatever the rent
  and balance entries are; without either, rent and balance give \<open>rent / balance\<close>;
  with none of the three, the result is the error whose message names all three
  encodings.  (A zero divisor raises Python's division error in the branch that was
  chosen; no later encoding is tried.)
\<close>

theorem select_calibration_first_match_wins:
  assumes name: "(if preset_name \<noteq> None then preset_name else default_preset (calibration a)) = Some name"
    and cfg: "map_of (presets (calibration a)) name = Some cfg"
  shows "(\<forall>t. scalars cfg ''rent_to_debt_ratio'' = Some t \<longrightarrow>
            select_calibration a preset_name = Inr (t, name, cfg))
       \<and> (\<forall>g l. scalars cfg ''rent_to_debt_ratio'' = None
              \<and> scalars cfg ''gross_yield'' = Some g \<and> scalars cfg ''ltv'' = Some l \<longrightarrow>
            select_calibration a preset_name
              = (if l = 0 then Inl ZeroDivisionError else Inr (g / l, name, cfg)))
       \<and> (\<forall>r b. scalars cfg ''rent_to_debt_ratio'' = None
              \<and> (scalars cfg ''gross_yield'' = None \<or> scalars cfg ''ltv'' = None)
              \<and> scalars cfg ''annual_rent_gbp'' = Some r
              \<and> scalars cfg ''mortgage_balance_gbp'' = Some b \<longrightarrow>
            select_calibration a preset_name
              = (if b = 0 then Inl ZeroDivisionError else Inr (r / b, name, cfg)))
       \<and> (scalars cfg ''rent_to_debt_ratio'' = None
              \<and> (scalars cfg ''gross_yield'' = None \<or> scalars cfg ''ltv'' = None)
              \<and> (scalars cfg ''annual_rent_gbp'' = None
                   \<or> scalars cfg ''mortgage_balance_gbp'' = None) \<longrightarrow>
            select_calibration a preset_name
              = Inl (ValueError (''Preset '' @ quoted name
                  @ '' must define rent_to_debt_ratio OR (gross_yield and ltv) OR (annual_rent_gbp and mortgage_balance_gbp).'')))"
  unfolding select_calibration_resolved [OF name cfg]
  by (auto simp: preset_theta_def py_div_def missing_encoding_msg_def)

theorem select_calibration_first_match_wins_witness:
  "(\<exists>cfg. select_calibration (example_assumptions 0 100 50) None = Inr (8 / 100, ''all_three'', cfg))
   \<and> (\<exists>cfg. select_calibration (example_assumptions 0 100 50) (Some ''yield_and_balance'')
          = Inr ((6 / 100) / (6 / 10), ''yield_and_balance'', cfg))
   \<and> (\<exists>cfg. select_calibration (example_assumptions 0 100 50) (Some ''balance_only'')
          = Inr (12000 / 100000, ''balance_only'', cfg))
   \<and> select_calibration (example_assumptions 0 100 50) (Some ''nothing'')
          = Inl (ValueError (''Preset '' @ quoted ''nothing''
                  @ '' must define rent_to_debt_ratio OR (gross_yield and ltv) OR (annual_rent_gbp and mortgage_balance_gbp).''))"
proof -
  let ?a = "example_assumptions 0 100 50"
  have d: "default_preset (calibration ?a) = Some ''all_three''"
    by (simp add: example_assumptions_def)
  have p: "presets (calibration ?a) = example_presets"
    by (simp add: example_assumptions_def)
  have 1: "\<exists>cfg. select_calibration ?a None = Inr (8 / 100, ''all_three'', cfg)"
    using select_calibration_first_match_wins [of None ?a "''all_three''"
      "the (map_of example_presets ''all_three'')", THEN conjunct1, rule_format, of "8 / 100"]
    by (simp add: d p example_presets_def)
  have 2: "\<exists>cfg. select_calibration ?a (Some ''yield_and_balance'')
          = Inr ((6 / 100) / (6 / 10), ''yield_and_balance'', cfg)"
    using select_calibration_first_match_wins [of "Some ''yield_and_balance''" ?a "''yield_and_balance''"
      "the (map_of example_presets ''yield_and_balance'')",
      THEN conjunct2, THEN conjunct1, rule_format, of "6 / 100" "6 / 10"]
    by (simp add: d p example_presets_def)
  have 3: "\<exists>cfg. select_calibration ?a (Some ''balance_only'')
          = Inr (12000 / 100000, ''balance_only'', cfg)"
    using select_calibration_first_match_wins [of "Some ''balance_only''" ?a "''balance_only''"
      "the (map_of example_presets ''balance_only'')",
      THEN conjunct2, THEN conjunct2, THEN conjunct1, rule_format, of 12000 100000]
    by (simp add: d p example_presets_def)
  have 4: "select_calibration ?a (Some ''nothing'')
          = Inl (ValueError (''Preset '' @ quoted ''nothing''
                  @ '' must define rent_to_debt_ratio OR (gross_yield and ltv) OR (annual_rent_gbp and mortgage_balance_gbp).''))"
    using select_calibration_first_match_wins [of "Some ''nothing''" ?a "''nothing''"
      "the (map_of example_presets ''nothing'')",
      THEN conjunct2, THEN conjunct2, THEN conjunct2, rule_format]
    by (simp add: d p example_presets_def)
  from 1 2 3 4 show ?thesis by blast
qed


section \<open>The generators of simulate.py against their checked siblings in model.py\<close>

text \<open>
  model.py validates its inputs: \<open>_inclusive_arange\<close> refuses a step that is not
  positive, and \<open>theta_from_yield_ltv\<close> refuses an LTV that is not positive.
\<close>

lemma inclusive_arange_rejects_step: 
  "step \<le> 0 \<Longrightarrow> inclusive_arange start stop step decimals = Inl (ValueError ''step must be > 0'')"
  by (simp add: inclusive_arange_def)

lemma theta_from_yield_ltv_eq:
  "theta_from_yield_ltv gross_yield ltv =
     (if ltv \<le> 0 then Inl (ValueError ''ltv must be > 0'') else Inr (gross_yield / ltv))"
  by (simp add: theta_from_yield_ltv_def)


text \<open>
  \<open>_inclusive_arange\<close> also ends its grid at \<open>stop\<close>.  With six decimals, as
  both callers in model.py ask for, and a range whose three numbers have at most six
  decimals (so that rounding changes nothing and two different values are at least
  \<open>1e-6\<close> apart), the grid is strictly increasing and its last value is \<open>stop\<close>,
  whether or not \<open>stop - start\<close> is a multiple of the step.
\<close>

lemma rint_of_int: "rint (of_int k) = k"
  by (simp add: rint_def Let_def)

lemma np_round_on_grid: "np_round (of_int k / 10 ^ 6) 6 = of_int k / 10 ^ 6"
proof -
  have "(of_int k / 10 ^ 6 :: real) * 10 ^ 6 = of_int k" by simp
  then show ?thesis unfolding np_round_def by (simp only: rint_of_int)
qed

lemma grid_le_tolerance:
  "(of_int k / 10 ^ 6 :: real) \<le> of_int b / 10 ^ 6 + 1 / 10 ^ 12 \<longleftrightarrow> k \<le> b"
proof
  assume "(of_int k / 10 ^ 6 :: real) \<le> of_int b / 10 ^ 6 + 1 / 10 ^ 12"
  then have "(of_int k :: real) \<le> of_int b + 1 / 10 ^ 6" by (simp add: field_simps)
  then have "(of_int k :: real) < of_int b + 1" by simp
  then have "(of_int k :: real) < of_int (b + 1)" by simp
  then have "k < b + 1" by (simp only: of_int_less_iff)
  then show "k \<le> b" by simp
next
  assume "k \<le> b"
  then have "(of_int k :: real) \<le> of_int b" by simp
  then have "(of_int k / 10 ^ 6 :: real) \<le> of_int b / 10 ^ 6" by (simp add: divide_right_mono)
  then show "(of_int k / 10 ^ 6 :: real) \<le> of_int b / 10 ^ 6 + 1 / 10 ^ 12" by simp
qed

lemma grid_gap:
  assumes "k \<le> b"
  shows "(\<bar>(of_int k / 10 ^ 6 :: real) - of_int b / 10 ^ 6\<bar> > 1 / 10 ^ 8
           \<and> (of_int b / 10 ^ 6 :: real) \<ge> of_int k / 10 ^ 6 + 1 / 10 ^ 8) \<longleftrightarrow> k < b"
proof (cases "k = b")
  case True
  then show ?thesis by simp
next
  case False
  with assms have "k + 1 \<le> b" by simp
  then have "(of_int (k + 1) :: real) \<le> of_int b" by (simp only: of_int_le_iff)
  then have "(of_int k :: real) + 1 \<le> of_int b" by simp
  then have "(of_int k / 10 ^ 6 :: real) + 1 / 10 ^ 6 \<le> of_int b / 10 ^ 6"
    by (simp add: field_simps)
  then have "\<bar>(of_int k / 10 ^ 6 :: real) - of_int b / 10 ^ 6\<bar> > 1 / 10 ^ 8
           \<and> (of_int b / 10 ^ 6 :: real) \<ge> of_int k / 10 ^ 6 + 1 / 10 ^ 8"
    by simp
  with False assms show ?thesis by simp
qed

lemma last_sorted_upper:
  assumes "sorted ys" and "x \<in> set ys" and "\<forall>y\<in>set ys. y \<le> x"
  shows "last ys = x"
proof -
  from assms(2) have ne: "ys \<noteq> []" by auto
  from assms(2) obtain i where i: "i < length ys" "ys ! i = x" by (auto simp: in_set_conv_nth)
  then have "ys ! i \<le> ys ! (length ys - 1)"
    using assms(1) ne by (intro sorted_nth_mono) auto
  then have "x \<le> last ys" using i ne by (simp add: last_conv_nth)
  moreover have "last ys \<le> x" using assms(3) ne by simp
  ultimately show ?thesis by simp
qed

lemma inclusive_arange_ends_at_stop:
  fixes a b c :: int
  assumes c: "0 < c" and ab: "a \<le> b"
  shows "\<exists>vals. inclusive_arange (of_int a / 10 ^ 6) (of_int b / 10 ^ 6) (of_int c / 10 ^ 6) 6 = Inr vals
           \<and> last vals = of_int b / 10 ^ 6 \<and> sorted_wrt (<) vals"
proof -
  let ?g = "\<lambda>k::int. (of_int k / 10 ^ 6 :: real)"
  define n where "n = \<lfloor>(?g b - ?g a) / ?g c + 1 / 10 ^ 12\<rfloor> + 1"
  define ks where "ks = filter (\<lambda>k. k \<le> b) (map (\<lambda>i. a + c * int i) [0..<nat n])"
  define ks' where "ks' = (if last ks < b then ks @ [b] else ks)"
  have step: "\<not> ?g c \<le> 0" using c by simp
  have "0 \<le> (?g b - ?g a) / ?g c" using c ab by (simp add: divide_right_mono)
  then have "0 \<le> \<lfloor>(?g b - ?g a) / ?g c + 1 / 10 ^ 12\<rfloor>" by simp
  then have n: "0 < nat n" by (simp add: n_def)
  have raw: "map (\<lambda>i. ?g a + ?g c * real i) [0..<nat n] = map ?g (map (\<lambda>i. a + c * int i) [0..<nat n])"
    by (simp add: field_simps)
  have filt: "map (\<lambda>v. np_round v 6)
          (filter (\<lambda>v. v \<le> ?g b + 1 / 10 ^ 12) (map (\<lambda>i. ?g a + ?g c * real i) [0..<nat n]))
        = map ?g ks"
    unfolding raw ks_def filter_map comp_def grid_le_tolerance
    by (simp only: map_map comp_def np_round_on_grid)
  have "a \<in> set (map (\<lambda>i. a + c * int i) [0..<nat n])" using n by (auto intro!: image_eqI [of _ _ 0])
  with ab have a_in: "a \<in> set ks" by (simp add: ks_def)
  then have ne: "ks \<noteq> []" by auto
  then have ne': "map ?g ks \<noteq> []" by simp
  have le: "\<forall>k\<in>set ks. k \<le> b" by (simp add: ks_def)
  then have last_le: "last ks \<le> b" using ne by simp
  have app: "(if \<bar>last (map ?g ks) - ?g b\<bar> > 1 / 10 ^ 8 \<and> ?g b \<ge> last (map ?g ks) + 1 / 10 ^ 8
              then map ?g ks @ [np_round (?g b) 6] else map ?g ks) = map ?g ks'"
    unfolding last_map [OF ne] grid_gap [OF last_le] ks'_def np_round_on_grid by simp
  have res: "inclusive_arange (?g a) (?g b) (?g c) 6 = Inr (np_unique (map ?g ks'))"
    unfolding inclusive_arange_def Let_def n_def [symmetric] filt
    by (simp only: step if_False ne' app)
  have b_in: "b \<in> set ks'"
  proof (cases "last ks < b")
    case True
    then show ?thesis by (simp add: ks'_def)
  next
    case False
    with last_le have "last ks = b" by simp
    with ne have "b \<in> set ks" using last_in_set by metis
    with False show ?thesis by (simp add: ks'_def)
  qed
  have le': "\<forall>k\<in>set ks'. k \<le> b" using le by (simp add: ks'_def)
  let ?vals = "np_unique (map ?g ks')"
  have "sorted ?vals" and "distinct ?vals" by (simp_all add: np_unique_def)
  then have sw: "sorted_wrt (<) ?vals" by (simp add: strict_sorted_iff)
  have "?g b \<in> set ?vals" using b_in by (simp add: np_unique_def)
  moreover have "\<forall>y\<in>set ?vals. y \<le> ?g b" using le' by (auto simp: np_unique_def divide_right_mono)
  ultimately have "last ?vals = ?g b" using \<open>sorted ?vals\<close> by (intro last_sorted_upper) auto
  with res sw show ?thesis by blast
qed

text \<open>
  simulate.py does the same work inline, without those checks: \<open>_frange\<close> never
  raises an invalid-input error, and the yield and LTV branch of the calibration divides
  by whatever LTV it is given.
\<close>

lemma frange_never_invalid_input: "frange start stop step \<noteq> Inl (ValueError msg)"
  by (simp add: frange_def Let_def)

lemma preset_theta_yield_ltv:
  assumes "scalars cfg ''rent_to_debt_ratio'' = None"
    and "scalars cfg ''gross_yield'' = Some g" and "scalars cfg ''ltv'' = Some l" and "l \<noteq> 0"
  shows "preset_theta name cfg = Inr (g / l)"
  using assms by (simp add: preset_theta_def py_div_def)

text \<open>
  C3.  For the range 0 to 95 in steps of 10, \<open>_frange\<close>, which the sweep uses for
  both of its grids, returns 0, 10, ..., 90: the endpoint 95 is not in the grid.
  \<open>_inclusive_arange\<close> returns 0, 10, ..., 90, 95 for the same range.  For the
  aligned range 0 to 100 both return the eleven values 0, 10, ..., 100.
\<close>

theorem frange_drops_unaligned_stop:
  "frange 0 95 10 = Inr [0, 10, 20, 30, 40, 50, 60, 70, 80, 90]
   \<and> get_rate_shocks_bp (example_assumptions 0 95 10) = Inr [0, 10, 20, 30, 40, 50, 60, 70, 80, 90]
   \<and> frange 0 100 10 = Inr [0, 10, 20, 30, 40, 50, 60, 70, 80, 90, 100]
   \<and> inclusive_arange 0 95 10 6 = Inr [0, 10, 20, 30, 40, 50, 60, 70, 80, 90, 95]
   \<and> inclusive_arange 0 100 10 6 = Inr [0, 10, 20, 30, 40, 50, 60, 70, 80, 90, 100]"
  by code_simp


text \<open>
  C8.  \<open>_frange\<close> accepts a negative step: from 0 to 100 in steps of -10 it
  returns the empty grid, and the sweep over it returns the empty table; from 100 to 0 it
  returns the descending grid 100, 90, ..., 0.  A zero step raises the division error, not
  an invalid-input error.  \<open>_inclusive_arange\<close> raises its invalid-input error on the
  same ranges.
\<close>

theorem frange_accepts_nonpositive_step:
  "frange 0 100 (-10) = Inr []
   \<and> frange 100 0 (-10) = Inr [100, 90, 80, 70, 60, 50, 40, 30, 20, 10, 0]
   \<and> frange 0 100 0 = Inl ZeroDivisionError
   \<and> run_stress_test (example_assumptions 0 100 (-10)) (5 / 100) (1 / 10) None = Inr []
   \<and> inclusive_arange 0 100 (-10) 6 = Inl (ValueError ''step must be > 0'')
   \<and> inclusive_arange 0 100 0 6 = Inl (ValueError ''step must be > 0'')"
  by code_simp


text \<open>
  C9.  For a preset with \<open>gross_yield = 0.06\<close> and \<open>ltv = -0.6\<close> the calibration
  resolves to theta = -0.1 and does not fail, while \<open>theta_from_yield_ltv\<close> on the
  same two numbers raises its invalid-input error.
\<close>

theorem select_calibration_accepts_nonpositive_ltv:
  "map_sum id fst (select_calibration (example_assumptions 0 100 50) (Some ''negative_ltv''))
     = Inr (- (1 / 10))
   \<and> theta_from_yield_ltv (6 / 100) (- (6 / 10)) = Inl (ValueError ''ltv must be > 0'')"
  by code_simp


end
